theory Spec2Isabelle
  imports Main
begin

section \<open>Data model\<close>

text \<open>
  Modelled from the spec: the declarations of \<^verbatim>\<open>src/types\<close> (Task, SyncQueueItem,
  BatchSyncRequest, BatchSyncResponse, SyncResult), which the services import and
  which are not among the source files. The records follow section 3 (data model)
  and section 6 (wire protocol) of the spec, with exactly the fields that
  \<^verbatim>\<open>syncService.ts\<close> and the database class read and write. The value \<^verbatim>\<open>error\<close> of
  \<^verbatim>\<open>sync_status\<close> is \<open>Failed\<close>; the value \<^verbatim>\<open>error\<close> of a verdict is \<open>Error\<close>.

  A JavaScript \<^verbatim>\<open>Date\<close> is its time value: a number of milliseconds since the
  epoch, or NaN for an invalid date. \<open>None\<close> is the invalid date.
\<close>

type_synonym jsdate = "int option"

datatype sync_status = Pending | Synced | Failed

datatype operation = Create | Update | Delete

datatype verdict = Success | Conflict | Error

text \<open>Field \<^verbatim>\<open>id\<close> of a Task is \<open>id_t\<close>; optional fields are options.\<close>

record task =
  id_t :: string
  title :: string
  description :: "string option"
  completed :: bool
  created_at :: jsdate
  updated_at :: jsdate
  is_deleted :: bool
  sync_status :: sync_status
  server_id :: "string option"
  last_synced_at :: "jsdate option"

text \<open>
  \<^verbatim>\<open>Partial<Task>\<close>, the \<^verbatim>\<open>data\<close> of a queue item: every field of a Task, each
  optional (\<open>None\<close> when the property is absent). Fields carry the suffix \<open>_p\<close>.
\<close>

record partial_task =
  id_p :: "string option"
  title_p :: "string option"
  description_p :: "string option"
  completed_p :: "bool option"
  created_at_p :: "jsdate option"
  updated_at_p :: "jsdate option"
  is_deleted_p :: "bool option"
  sync_status_p :: "sync_status option"
  server_id_p :: "string option"
  last_synced_at_p :: "jsdate option"

text \<open>
  A row of the SQLite table \<^verbatim>\<open>tasks\<close> (suffix \<open>_r\<close>). The three DATETIME columns
  hold the text that \<^verbatim>\<open>Date.prototype.toISOString\<close> produced; such a text is
  represented by the instant it denotes, in milliseconds. SQLite compares the
  texts bytewise, which for the fixed-width form \<^verbatim>\<open>YYYY-MM-DDTHH:mm:ss.sssZ\<close>
  (years 0000 to 9999) is the order of the instants; the model covers these.
\<close>

record task_row =
  id_r :: string
  title_r :: string
  description_r :: "string option"
  completed_r :: bool
  created_at_r :: int
  updated_at_r :: int
  is_deleted_r :: bool
  sync_status_r :: sync_status
  server_id_r :: "string option"
  last_synced_at_r :: "int option"

text \<open>
  A SyncQueueItem as \<^verbatim>\<open>getPendingSyncItems\<close> returns it (fields \<^verbatim>\<open>id\<close> and
  \<^verbatim>\<open>created_at\<close> are \<open>id_q\<close> and \<open>created_at_q\<close>). Its \<^verbatim>\<open>created_at\<close> is read back
  from the ISO text of the row, hence an instant.
\<close>

record sync_queue_item =
  id_q :: string
  task_id :: string
  operation :: operation
  data :: partial_task
  created_at_q :: int
  retry_count :: nat
  error_message :: "string option"

record batch_sync_request =
  items :: "sync_queue_item list"
  client_timestamp :: jsdate

text \<open>One entry of \<^verbatim>\<open>processed_items\<close> (its \<^verbatim>\<open>server_id\<close> is \<open>server_id_v\<close>).\<close>

record processed_item =
  client_id :: string
  server_id_v :: string
  status :: verdict
  resolved_data :: "task option"
  error :: "string option"

record batch_sync_response =
  processed_items :: "processed_item list"
  server_changes :: "task list"
  server_timestamp :: jsdate

record sync_error =
  task_id_e :: string
  operation_e :: string
  error_e :: string
  timestamp_e :: jsdate

record sync_result =
  success :: bool
  synced_items :: nat
  failed_items :: nat
  errors :: "sync_error list"

text \<open>The exceptions of the JavaScript runtime that the modelled code can raise.\<close>

datatype js_exception = RangeError string

fun message :: "js_exception \<Rightarrow> string" where
  "message (RangeError m) = m"

section \<open>The database class\<close>

text \<open>
  \<^verbatim>\<open>Date.prototype.toISOString\<close> throws a RangeError on an invalid date; otherwise it
  yields the ISO text, represented by its instant.
\<close>

definition toISOString :: "jsdate \<Rightarrow> js_exception + int" where
  "toISOString d =
     (case d of None \<Rightarrow> Inl (RangeError ''Invalid time value'') | Some ms \<Rightarrow> Inr ms)"

text \<open>\<^verbatim>\<open>x || null\<close> on an optional string: the empty string is falsy.\<close>

definition or_null :: "string option \<Rightarrow> string option" where
  "or_null x = (case x of None \<Rightarrow> None | Some s \<Rightarrow> if s = [] then None else Some s)"

definition rowToTask :: "task_row \<Rightarrow> task" where
  "rowToTask row =
     \<lparr> id_t = id_r row,
       title = title_r row,
       description = description_r row,
       completed = completed_r row,
       created_at = Some (created_at_r row),
       updated_at = Some (updated_at_r row),
       is_deleted = is_deleted_r row,
       sync_status = sync_status_r row,
       server_id = server_id_r row,
       last_synced_at = map_option Some (last_synced_at_r row) \<rparr>"

text \<open>
  \<^verbatim>\<open>INSERT OR REPLACE INTO tasks\<close>: \<^verbatim>\<open>id\<close> is the primary key, so a row with the same
  id is deleted and the new row is inserted (it gets a fresh rowid, hence the end of
  the table).
\<close>

definition insert_or_replace :: "task_row \<Rightarrow> task_row list \<Rightarrow> task_row list" where
  "insert_or_replace row tbl = filter (\<lambda>r. id_r r \<noteq> id_r row) tbl @ [row]"

text \<open>
  \<^verbatim>\<open>save\<close> builds the parameter array first, left to right; each \<^verbatim>\<open>toISOString\<close> may
  throw, and then no statement is run.
\<close>

definition save :: "task \<Rightarrow> task_row list \<Rightarrow> js_exception + task_row list" where
  "save t tbl =
     (case toISOString (created_at t) of
        Inl e \<Rightarrow> Inl e
      | Inr c \<Rightarrow>
         (case toISOString (updated_at t) of
            Inl e \<Rightarrow> Inl e
          | Inr u \<Rightarrow>
             (case (case last_synced_at t of
                      None \<Rightarrow> Inr None
                    | Some d \<Rightarrow> (case toISOString d of Inl e \<Rightarrow> Inl e | Inr l \<Rightarrow> Inr (Some l))) of
                Inl e \<Rightarrow> Inl e
              | Inr l \<Rightarrow>
                 Inr (insert_or_replace
                   \<lparr> id_r = id_t t,
                     title_r = title t,
                     description_r = description t,
                     completed_r = completed t,
                     created_at_r = c,
                     updated_at_r = u,
                     is_deleted_r = is_deleted t,
                     sync_status_r = sync_status t,
                     server_id_r = or_null (server_id t),
                     last_synced_at_r = l \<rparr> tbl))))"

definition findById :: "task_row list \<Rightarrow> string \<Rightarrow> task option" where
  "findById tbl i = map_option rowToTask (find (\<lambda>r. id_r r = i) tbl)"

text \<open>\<^verbatim>\<open>SELECT * FROM tasks WHERE updated_at > ?\<close>, the parameter being the ISO text.\<close>

definition findTasksModifiedSince :: "task_row list \<Rightarrow> jsdate \<Rightarrow> js_exception + task list" where
  "findTasksModifiedSince tbl timestamp =
     (case toISOString timestamp of
        Inl e \<Rightarrow> Inl e
      | Inr ts \<Rightarrow> Inr (map rowToTask (filter (\<lambda>r. ts < updated_at_r r) tbl)))"

text \<open>
  The table \<^verbatim>\<open>sync_queue\<close> is the list of its items. \<^verbatim>\<open>getPendingSyncItems\<close> orders
  them by \<^verbatim>\<open>created_at\<close> ascending (items created at the same instant keep their
  table order here; SQLite leaves that order open).
\<close>

definition getPendingSyncItems :: "sync_queue_item list \<Rightarrow> sync_queue_item list" where
  "getPendingSyncItems queue = sort_key created_at_q queue"

definition removeSyncQueueItem :: "string \<Rightarrow> sync_queue_item list \<Rightarrow> sync_queue_item list" where
  "removeSyncQueueItem i queue = filter (\<lambda>q. id_q q \<noteq> i) queue"

section \<open>The client: \<^verbatim>\<open>sync\<close>\<close>

text \<open>
  The state of the loop over \<^verbatim>\<open>batchResponse.processed_items\<close>: the queue table,
  \<^verbatim>\<open>syncedCount\<close> and \<^verbatim>\<open>failedCount\<close>.
\<close>

definition sync_step ::
  "sync_queue_item list \<times> nat \<times> nat \<Rightarrow> processed_item \<Rightarrow> sync_queue_item list \<times> nat \<times> nat" where
  "sync_step st item =
     (case st of (queue, syncedCount, failedCount) \<Rightarrow>
        if status item = Success \<or> status item = Conflict
        then (removeSyncQueueItem (client_id item) queue, syncedCount + 1, failedCount)
        else (queue, syncedCount, failedCount + 1))"

text \<open>
  What one call of \<^verbatim>\<open>sync\<close> leaves behind: the queue table, the returned SyncResult
  and the requests it posted.
\<close>

record sync_outcome =
  queue_after :: "sync_queue_item list"
  result :: sync_result
  posted :: "batch_sync_request list"

text \<open>
  \<open>now\<close> and \<open>now_err\<close> are the clock readings of the two \<^verbatim>\<open>new Date()\<close>; \<open>post\<close> is
  \<^verbatim>\<open>axios.post\<close> to the batch endpoint, \<open>None\<close> when it throws.
\<close>

definition sync ::
  "int \<Rightarrow> int \<Rightarrow> (batch_sync_request \<Rightarrow> batch_sync_response option) \<Rightarrow>
   sync_queue_item list \<Rightarrow> sync_outcome" where
  "sync now now_err post queue =
     (let pendingItems = getPendingSyncItems queue;
          totalPending = length pendingItems
      in if totalPending = 0
         then \<lparr> queue_after = queue,
                result = \<lparr> success = True, synced_items = 0, failed_items = 0, errors = [] \<rparr>,
                posted = [] \<rparr>
         else
           (let batchRequest = \<lparr> items = pendingItems, client_timestamp = Some now \<rparr>
            in case post batchRequest of
                 Some batchResponse \<Rightarrow>
                   (case foldl sync_step (queue, 0, 0) (processed_items batchResponse) of
                      (queue', syncedCount, failedCount) \<Rightarrow>
                        \<lparr> queue_after = queue',
                          result = \<lparr> success = (failedCount = 0), synced_items = syncedCount,
                                     failed_items = failedCount, errors = [] \<rparr>,
                          posted = [batchRequest] \<rparr>)
               | None \<Rightarrow>
                   \<lparr> queue_after = queue,
                     result = \<lparr> success = False, synced_items = 0, failed_items = totalPending,
                                errors = [\<lparr> task_id_e = ''N/A'', operation_e = ''sync'',
                                            error_e = ''Network or Server Error'',
                                            timestamp_e = Some now_err \<rparr>] \<rparr>,
                     posted = [batchRequest] \<rparr>))"

section \<open>The server: \<^verbatim>\<open>handleBatchSync\<close>\<close>

text \<open>
  Relational operators on two Dates compare their time values; every comparison with
  NaN is false.
\<close>

definition date_ge :: "jsdate \<Rightarrow> jsdate \<Rightarrow> bool" where
  "date_ge a b = (case (a, b) of (Some x, Some y) \<Rightarrow> y \<le> x | _ \<Rightarrow> False)"

definition date_lt :: "jsdate \<Rightarrow> jsdate \<Rightarrow> bool" where
  "date_lt a b = (case (a, b) of (Some x, Some y) \<Rightarrow> x < y | _ \<Rightarrow> False)"

text \<open>
  \<^verbatim>\<open>data.updated_at ? new Date(data.updated_at) : serverTask.updated_at\<close>; a Date object
  is truthy, valid or not.
\<close>

definition clientUpdatedDate :: "partial_task \<Rightarrow> task \<Rightarrow> jsdate" where
  "clientUpdatedDate d serverTask =
     (case updated_at_p d of Some u \<Rightarrow> u | None \<Rightarrow> updated_at serverTask)"

text \<open>
  The Task built for \<^verbatim>\<open>create\<close> on an absent id. \<open>now\<close> is the reading of the
  server's clock taken by \<^verbatim>\<open>new Date()\<close> (one reading stands for those of one call of
  the handler). \<^verbatim>\<open>x || d\<close> takes \<open>d\<close> for an absent property, for the empty string
  and for \<^verbatim>\<open>false\<close>.
\<close>

definition newTask :: "int \<Rightarrow> string \<Rightarrow> partial_task \<Rightarrow> task" where
  "newTask now tid d =
     \<lparr> id_t = tid,
       title = (case title_p d of
                  None \<Rightarrow> ''New Task (Client Sync)''
                | Some s \<Rightarrow> if s = [] then ''New Task (Client Sync)'' else s),
       description = description_p d,
       completed = (case completed_p d of None \<Rightarrow> False | Some b \<Rightarrow> b),
       created_at = (case created_at_p d of None \<Rightarrow> Some now | Some c \<Rightarrow> c),
       updated_at = (case updated_at_p d of None \<Rightarrow> Some now | Some u \<Rightarrow> u),
       is_deleted = (case is_deleted_p d of None \<Rightarrow> False | Some b \<Rightarrow> b),
       sync_status = Synced,
       server_id = Some tid,
       last_synced_at = None \<rparr>"

text \<open>
  \<^verbatim>\<open>{ ...serverTask, ...data, id: serverTask.id, sync_status: 'synced',
  updated_at: clientUpdatedDate }\<close>: a property of \<^verbatim>\<open>data\<close> replaces that of
  \<^verbatim>\<open>serverTask\<close>, and the three named properties replace both.
\<close>

definition mergedTask :: "task \<Rightarrow> partial_task \<Rightarrow> task" where
  "mergedTask serverTask d =
     \<lparr> id_t = id_t serverTask,
       title = (case title_p d of None \<Rightarrow> title serverTask | Some s \<Rightarrow> s),
       description = (case description_p d of None \<Rightarrow> description serverTask | Some s \<Rightarrow> Some s),
       completed = (case completed_p d of None \<Rightarrow> completed serverTask | Some b \<Rightarrow> b),
       created_at = (case created_at_p d of None \<Rightarrow> created_at serverTask | Some c \<Rightarrow> c),
       updated_at = clientUpdatedDate d serverTask,
       is_deleted = (case is_deleted_p d of None \<Rightarrow> is_deleted serverTask | Some b \<Rightarrow> b),
       sync_status = Synced,
       server_id = (case server_id_p d of None \<Rightarrow> server_id serverTask | Some s \<Rightarrow> Some s),
       last_synced_at =
         (case last_synced_at_p d of None \<Rightarrow> last_synced_at serverTask | Some l \<Rightarrow> Some l) \<rparr>"

text \<open>
  The body of the \<^verbatim>\<open>try\<close> block for one item, on the state of the loop: the table
  \<^verbatim>\<open>tasks\<close> and the array \<^verbatim>\<open>processedItems\<close>. \<open>Inl\<close> is a thrown exception; the only
  throwing call is \<^verbatim>\<open>db.save\<close>, which throws before it writes, so the state at the
  \<^verbatim>\<open>catch\<close> is the state at the start of the item.
\<close>

definition try_item ::
  "int \<Rightarrow> sync_queue_item \<Rightarrow> task_row list \<times> processed_item list \<Rightarrow>
   js_exception + task_row list \<times> processed_item list" where
  "try_item now item st =
     (case st of (tbl, processedItems) \<Rightarrow>
        (case findById tbl (task_id item) of
           None \<Rightarrow>
             if operation item = Create
             then (case save (newTask now (task_id item) (data item)) tbl of
                     Inl e \<Rightarrow> Inl e
                   | Inr tbl' \<Rightarrow>
                       Inr (tbl', processedItems @
                         [\<lparr> client_id = task_id item, server_id_v = task_id item,
                            status = Success, resolved_data = None, error = None \<rparr>]))
             else Inr (tbl, processedItems @
                         [\<lparr> client_id = task_id item, server_id_v = task_id item,
                            status = Success, resolved_data = None, error = None \<rparr>])
         | Some serverTask \<Rightarrow>
             if date_ge (clientUpdatedDate (data item) serverTask) (updated_at serverTask)
             then (case save (mergedTask serverTask (data item)) tbl of
                     Inl e \<Rightarrow> Inl e
                   | Inr tbl' \<Rightarrow>
                       Inr (tbl', processedItems @
                         [\<lparr> client_id = task_id item, server_id_v = id_t serverTask,
                            status = Success, resolved_data = None, error = None \<rparr>]))
             else if date_lt (clientUpdatedDate (data item) serverTask) (updated_at serverTask)
             then Inr (tbl, processedItems @
                         [\<lparr> client_id = task_id item, server_id_v = id_t serverTask,
                            status = Conflict, resolved_data = Some serverTask, error = None \<rparr>])
             else Inr (tbl, processedItems)))"

text \<open>One iteration of the loop: the \<^verbatim>\<open>try\<close> block and its \<^verbatim>\<open>catch\<close>.\<close>

definition handle_item ::
  "int \<Rightarrow> task_row list \<times> processed_item list \<Rightarrow> sync_queue_item \<Rightarrow>
   task_row list \<times> processed_item list" where
  "handle_item now st item =
     (case try_item now item st of
        Inr st' \<Rightarrow> st'
      | Inl e \<Rightarrow>
          (fst st, snd st @
             [\<lparr> client_id = task_id item, server_id_v = task_id item,
                status = Error, resolved_data = None, error = Some (message e) \<rparr>]))"

text \<open>The loop \<^verbatim>\<open>for (const item of request.items)\<close>.\<close>

definition process_items ::
  "int \<Rightarrow> sync_queue_item list \<Rightarrow> task_row list \<times> processed_item list \<Rightarrow>
   task_row list \<times> processed_item list" where
  "process_items now xs st = foldl (handle_item now) st xs"

text \<open>
  \<^verbatim>\<open>handleBatchSync\<close> returns the table as the call leaves it, and the response or the
  exception that rejects the promise (\<^verbatim>\<open>findTasksModifiedSince\<close> is outside every
  \<^verbatim>\<open>try\<close>).
\<close>

definition handleBatchSync ::
  "int \<Rightarrow> batch_sync_request \<Rightarrow> task_row list \<Rightarrow>
   task_row list \<times> (js_exception + batch_sync_response)" where
  "handleBatchSync now request tbl =
     (case process_items now (items request) (tbl, []) of
        (tbl', processedItems) \<Rightarrow>
          (tbl',
           case findTasksModifiedSince tbl' (client_timestamp request) of
             Inl e \<Rightarrow> Inl e
           | Inr serverChanges \<Rightarrow>
               Inr \<lparr> processed_items = processedItems,
                     server_changes = serverChanges,
                     server_timestamp = Some now \<rparr>))"

section \<open>Example data\<close>

text \<open>Concrete queue items, tables and transports on which the theorems are run.\<close>

definition no_data :: partial_task where
  "no_data =
     \<lparr> id_p = None, title_p = None, description_p = None, completed_p = None,
       created_at_p = None, updated_at_p = None, is_deleted_p = None,
       sync_status_p = None, server_id_p = None, last_synced_at_p = None \<rparr>"

definition queue_item :: "string \<Rightarrow> string \<Rightarrow> operation \<Rightarrow> partial_task \<Rightarrow> sync_queue_item" where
  "queue_item qid tid opn d =
     \<lparr> id_q = qid, task_id = tid, operation = opn, data = d,
       created_at_q = 10, retry_count = 0, error_message = None \<rparr>"

text \<open>A stored task \<^verbatim>\<open>t1\<close>, last updated at instant 100.\<close>

definition row_t1 :: task_row where
  "row_t1 =
     \<lparr> id_r = ''t1'', title_r = ''Buy milk'', description_r = None, completed_r = False,
       created_at_r = 50, updated_at_r = 100, is_deleted_r = False,
       sync_status_r = Synced, server_id_r = Some ''t1'', last_synced_at_r = None \<rparr>"

definition verdict_for :: "string \<Rightarrow> verdict \<Rightarrow> processed_item" where
  "verdict_for cid v =
     \<lparr> client_id = cid, server_id_v = cid, status = v, resolved_data = None, error = None \<rparr>"

text \<open>A transport that answers every request with the given verdicts.\<close>

definition answer :: "processed_item list \<Rightarrow> int \<Rightarrow> batch_sync_request \<Rightarrow> batch_sync_response option" where
  "answer vs ts request =
     Some \<lparr> processed_items = vs, server_changes = [], server_timestamp = Some ts \<rparr>"

text \<open>
  A transport that fails, and one that reaches this repository's own handler: the
  route \<^verbatim>\<open>POST /sync/batch\<close> hands the body to \<^verbatim>\<open>handleBatchSync\<close> and sends its
  response back; when the handler throws, the route answers 500 and \<^verbatim>\<open>axios.post\<close>
  throws. \<open>now\<close> is the server's clock and \<open>tbl\<close> its table.
\<close>

definition unreachable :: "batch_sync_request \<Rightarrow> batch_sync_response option" where
  "unreachable request = None"

definition own_server :: "int \<Rightarrow> task_row list \<Rightarrow> batch_sync_request \<Rightarrow> batch_sync_response option" where
  "own_server now tbl request =
     (case snd (handleBatchSync now request tbl) of Inl e \<Rightarrow> None | Inr response \<Rightarrow> Some response)"

section \<open>The client's loop over the verdicts\<close>

text \<open>
  The loop of \<^verbatim>\<open>sync\<close> deletes the queue rows whose id is the \<^verbatim>\<open>client_id\<close> of a
  verdict \<^verbatim>\<open>success\<close> or \<^verbatim>\<open>conflict\<close>, and counts the two kinds of verdicts.
\<close>

lemma foldl_sync_step:
  "foldl sync_step (queue, s, f) vs =
     (filter (\<lambda>q. \<not> (\<exists>v\<in>set vs. client_id v = id_q q \<and> (status v = Success \<or> status v = Conflict))) queue,
      s + length (filter (\<lambda>v. status v = Success \<or> status v = Conflict) vs),
      f + length (filter (\<lambda>v. \<not> (status v = Success \<or> status v = Conflict)) vs))"
proof (induction vs arbitrary: queue s f)
  case Nil
  then show ?case by simp
next
  case (Cons v vs)
  show ?case
  proof (cases "status v = Success \<or> status v = Conflict")
    case True
    then have "sync_step (queue, s, f) v = (removeSyncQueueItem (client_id v) queue, s + 1, f)"
      by (simp add: sync_step_def)
    then show ?thesis using True
      by (simp add: Cons.IH removeSyncQueueItem_def) (rule filter_cong, auto)
  next
    case False
    then have "sync_step (queue, s, f) v = (queue, s, f + 1)"
      by (simp add: sync_step_def)
    then show ?thesis using False
      by (simp add: Cons.IH)
  qed
qed

lemma length_pending: "length (getPendingSyncItems queue) = length queue"
  by (simp add: getPendingSyncItems_def)

lemma pending_empty: "getPendingSyncItems queue = [] \<longleftrightarrow> queue = []"
  by (metis getPendingSyncItems_def length_sort length_0_conv)

lemma not_resolved_iff: "(v \<noteq> Success \<and> v \<noteq> Conflict) \<longleftrightarrow> v = Error"
  by (cases v) simp_all

lemma sync_posts:
  assumes "queue \<noteq> []"
  shows "posted (sync now now_err post queue) =
           [\<lparr> items = getPendingSyncItems queue, client_timestamp = Some now \<rparr>]"
  using assms by (simp add: sync_def Let_def pending_empty split: option.split prod.split)

lemma sync_responded:
  assumes "queue \<noteq> []"
    and "post \<lparr> items = getPendingSyncItems queue, client_timestamp = Some now \<rparr> = Some resp"
  shows "sync now now_err post queue =
     \<lparr> queue_after = filter (\<lambda>q. \<not> (\<exists>v\<in>set (processed_items resp).
                          client_id v = id_q q \<and> (status v = Success \<or> status v = Conflict))) queue,
       result = \<lparr> success = (\<forall>v\<in>set (processed_items resp). status v \<noteq> Error),
                  synced_items = length (filter (\<lambda>v. status v = Success \<or> status v = Conflict)
                                   (processed_items resp)),
                  failed_items = length (filter (\<lambda>v. status v = Error) (processed_items resp)),
                  errors = [] \<rparr>,
       posted = [\<lparr> items = getPendingSyncItems queue, client_timestamp = Some now \<rparr>] \<rparr>"
  using assms
  by (simp add: sync_def Let_def pending_empty foldl_sync_step filter_empty_conv not_resolved_iff)

lemma sync_failed:
  assumes "queue \<noteq> []"
    and "post \<lparr> items = getPendingSyncItems queue, client_timestamp = Some now \<rparr> = None"
  shows "sync now now_err post queue =
     \<lparr> queue_after = queue,
       result = \<lparr> success = False, synced_items = 0, failed_items = length queue,
                  errors = [\<lparr> task_id_e = ''N/A'', operation_e = ''sync'',
                              error_e = ''Network or Server Error'',
                              timestamp_e = Some now_err \<rparr>] \<rparr>,
       posted = [\<lparr> items = getPendingSyncItems queue, client_timestamp = Some now \<rparr>] \<rparr>"
  using assms
  by (simp add: sync_def Let_def pending_empty length_pending)

section \<open>Properties of \<^verbatim>\<open>sync\<close>\<close>

text \<open>
  What the loop does to the queue: a row goes exactly when its own id is the
  \<^verbatim>\<open>client_id\<close> of some verdict \<^verbatim>\<open>success\<close> or \<^verbatim>\<open>conflict\<close>.
\<close>

lemma sync_removes_by_client_id:
  assumes "queue \<noteq> []"
    and "post \<lparr> items = getPendingSyncItems queue, client_timestamp = Some now \<rparr> = Some resp"
  shows "queue_after (sync now now_err post queue) =
           filter (\<lambda>q. \<not> (\<exists>v\<in>set (processed_items resp).
                     client_id v = id_q q \<and> (status v = Success \<or> status v = Conflict))) queue"
  using assms by (simp add: sync_responded)

text \<open>
  C3. One pending item \<^verbatim>\<open>q1\<close>, an update of task \<^verbatim>\<open>t1\<close>, is sent to this
  repository's own handler, whose table is empty. The handler answers with the
  verdict \<^verbatim>\<open>success\<close> for it, carrying \<^verbatim>\<open>client_id = t1\<close>. \<^verbatim>\<open>sync\<close> counts one synced
  item and reports success, and the item is still in the queue:
  \<^verbatim>\<open>removeSyncQueueItem\<close> was given the task id, and it deletes by the id of the row.
\<close>

theorem sync_leaves_resolved_item_queued:
  "own_server 1000 []
     \<lparr> items = [queue_item ''q1'' ''t1'' Update no_data], client_timestamp = Some 2000 \<rparr>
   = Some \<lparr> processed_items =
              [\<lparr> client_id = ''t1'', server_id_v = ''t1'', status = Success,
                 resolved_data = None, error = None \<rparr>],
            server_changes = [],
            server_timestamp = Some 1000 \<rparr>
   \<and> sync 2000 2001 (own_server 1000 []) [queue_item ''q1'' ''t1'' Update no_data]
   = \<lparr> queue_after = [queue_item ''q1'' ''t1'' Update no_data],
       result = \<lparr> success = True, synced_items = 1, failed_items = 0, errors = [] \<rparr>,
       posted = [\<lparr> items = [queue_item ''q1'' ''t1'' Update no_data],
                    client_timestamp = Some 2000 \<rparr>] \<rparr>"
  by (simp add: sync_def Let_def getPendingSyncItems_def own_server_def sync_step_def
      removeSyncQueueItem_def handleBatchSync_def process_items_def handle_item_def try_item_def
      findById_def queue_item_def findTasksModifiedSince_def toISOString_def)

text \<open>
  C4. When the queue is not empty and the POST of the batch throws, \<^verbatim>\<open>sync\<close> leaves
  the queue table as it was (so the pending items read afterwards are the same),
  and returns \<^verbatim>\<open>success = false\<close>, no synced item, and as many failed items as
  pending items were sent in the request.
\<close>

theorem sync_transport_failure:
  assumes "queue \<noteq> []"
    and "post \<lparr> items = getPendingSyncItems queue, client_timestamp = Some now \<rparr> = None"
  shows "queue_after (sync now now_err post queue) = queue
         \<and> getPendingSyncItems (queue_after (sync now now_err post queue)) = getPendingSyncItems queue
         \<and> success (result (sync now now_err post queue)) = False
         \<and> synced_items (result (sync now now_err post queue)) = 0
         \<and> failed_items (result (sync now now_err post queue)) = length (getPendingSyncItems queue)
         \<and> map (length \<circ> items) (posted (sync now now_err post queue))
             = [failed_items (result (sync now now_err post queue))]"
  using assms by (simp add: sync_failed length_pending)

theorem sync_transport_failure_witness:
  "sync 2000 2001 unreachable
      [queue_item ''q1'' ''t1'' Update no_data, queue_item ''q2'' ''t2'' Delete no_data]
   = \<lparr> queue_after = [queue_item ''q1'' ''t1'' Update no_data, queue_item ''q2'' ''t2'' Delete no_data],
       result = \<lparr> success = False, synced_items = 0, failed_items = 2,
                  errors = [\<lparr> task_id_e = ''N/A'', operation_e = ''sync'',
                              error_e = ''Network or Server Error'', timestamp_e = Some 2001 \<rparr>] \<rparr>,
       posted = [\<lparr> items = [queue_item ''q1'' ''t1'' Update no_data,
                              queue_item ''q2'' ''t2'' Delete no_data],
                    client_timestamp = Some 2000 \<rparr>] \<rparr>"
  using sync_transport_failure [of
      "[queue_item ''q1'' ''t1'' Update no_data, queue_item ''q2'' ''t2'' Delete no_data]"
      unreachable 2000 2001]
  by (simp add: unreachable_def sync_def Let_def getPendingSyncItems_def queue_item_def)

text \<open>
  C10. A verdict \<^verbatim>\<open>error\<close> changes nothing in the queue: the step of the loop that
  handles it leaves the queue table as it is and adds one to \<^verbatim>\<open>failedCount\<close>. After
  a call of \<^verbatim>\<open>sync\<close> that received a response, every row of the queue is a row that
  was there before, unchanged; \<^verbatim>\<open>failed_items\<close> is the number of verdicts \<^verbatim>\<open>error\<close>;
  and a row whose id is carried by verdicts \<^verbatim>\<open>error\<close> only is still there, the rows
  stored under its id being the same as before (so \<^verbatim>\<open>retry_count\<close> and
  \<^verbatim>\<open>error_message\<close> are as they were).
\<close>

theorem sync_error_verdict_only_counts:
  assumes "queue \<noteq> []"
    and "post \<lparr> items = getPendingSyncItems queue, client_timestamp = Some now \<rparr> = Some resp"
  shows "(\<forall>v queue' s f. status v = Error \<longrightarrow> sync_step (queue', s, f) v = (queue', s, f + 1))
         \<and> set (queue_after (sync now now_err post queue)) \<subseteq> set queue
         \<and> failed_items (result (sync now now_err post queue))
             = length (filter (\<lambda>v. status v = Error) (processed_items resp))
         \<and> (\<forall>q\<in>set queue.
               (\<forall>v\<in>set (processed_items resp). client_id v = id_q q \<longrightarrow> status v = Error)
               \<longrightarrow> q \<in> set (queue_after (sync now now_err post queue))
                   \<and> filter (\<lambda>q'. id_q q' = id_q q) (queue_after (sync now now_err post queue))
                       = filter (\<lambda>q'. id_q q' = id_q q) queue)"
proof -
  let ?keep = "\<lambda>q. \<not> (\<exists>v\<in>set (processed_items resp).
                     client_id v = id_q q \<and> (status v = Success \<or> status v = Conflict))"
  have out: "sync now now_err post queue =
     \<lparr> queue_after = filter ?keep queue,
       result = \<lparr> success = (\<forall>v\<in>set (processed_items resp). status v \<noteq> Error),
                  synced_items = length (filter (\<lambda>v. status v = Success \<or> status v = Conflict)
                                   (processed_items resp)),
                  failed_items = length (filter (\<lambda>v. status v = Error) (processed_items resp)),
                  errors = [] \<rparr>,
       posted = [\<lparr> items = getPendingSyncItems queue, client_timestamp = Some now \<rparr>] \<rparr>"
    using assms(1,2) by (rule sync_responded)
  have step: "\<forall>v queue' s f. status v = Error \<longrightarrow> sync_step (queue', s, f) v = (queue', s, f + 1)"
    by (simp add: sync_step_def)
  have kept: "q \<in> set (filter ?keep queue)
              \<and> filter (\<lambda>q'. id_q q' = id_q q) (filter ?keep queue)
                  = filter (\<lambda>q'. id_q q' = id_q q) queue"
    if q: "q \<in> set queue"
      and err: "\<forall>v\<in>set (processed_items resp). client_id v = id_q q \<longrightarrow> status v = Error"
    for q
  proof -
    have keep: "?keep q'" if "id_q q' = id_q q" for q'
      using err that by auto
    have "filter (\<lambda>q'. id_q q' = id_q q) (filter ?keep queue)
            = filter (\<lambda>q'. id_q q' = id_q q) queue"
      unfolding filter_filter by (rule filter_cong) (use keep in auto)
    moreover have "q \<in> set (filter ?keep queue)"
      using q keep [OF refl] by simp
    ultimately show ?thesis by simp
  qed
  show ?thesis
    unfolding out using step kept by simp
qed

theorem sync_error_verdict_only_counts_witness:
  "queue_after (sync 2000 2001
      (answer [verdict_for ''q1'' Error, verdict_for ''q2'' Success] 1000)
      [(queue_item ''q1'' ''t1'' Update no_data) \<lparr> retry_count := 3, error_message := Some ''old'' \<rparr>,
       queue_item ''q2'' ''t2'' Delete no_data])
   = [(queue_item ''q1'' ''t1'' Update no_data) \<lparr> retry_count := 3, error_message := Some ''old'' \<rparr>]
   \<and> failed_items (result (sync 2000 2001
      (answer [verdict_for ''q1'' Error, verdict_for ''q2'' Success] 1000)
      [(queue_item ''q1'' ''t1'' Update no_data) \<lparr> retry_count := 3, error_message := Some ''old'' \<rparr>,
       queue_item ''q2'' ''t2'' Delete no_data])) = 1"
  using sync_error_verdict_only_counts [of
      "[(queue_item ''q1'' ''t1'' Update no_data) \<lparr> retry_count := 3, error_message := Some ''old'' \<rparr>,
       queue_item ''q2'' ''t2'' Delete no_data]"
      "answer [verdict_for ''q1'' Error, verdict_for ''q2'' Success] 1000"
      2000 _ 2001]
  by (simp add: answer_def verdict_for_def queue_item_def sync_def Let_def getPendingSyncItems_def
      sync_step_def removeSyncQueueItem_def)

text \<open>
  C8, as the code has it. When the queue is not empty, \<^verbatim>\<open>sync\<close> posts one request:
  its items are the pending items in the order of \<^verbatim>\<open>getPendingSyncItems\<close>, and its
  \<^verbatim>\<open>client_timestamp\<close> is the reading of the client's clock at the call, whatever
  the transport answers and whatever earlier responses said. \<^verbatim>\<open>sync\<close> keeps no
  timestamp: its state is the queue table alone.
\<close>

theorem sync_sends_clock_reading:
  assumes "queue \<noteq> []"
  shows "posted (sync now now_err post queue)
           = [\<lparr> items = getPendingSyncItems queue, client_timestamp = Some now \<rparr>]"
  using assms by (rule sync_posts)

theorem sync_sends_clock_reading_witness:
  "posted (sync 5000 5001 (answer [verdict_for ''q1'' Error] 1000) [queue_item ''q1'' ''t1'' Update no_data])
     = [\<lparr> items = [queue_item ''q1'' ''t1'' Update no_data], client_timestamp = Some 5000 \<rparr>]"
  using sync_sends_clock_reading [of "[queue_item ''q1'' ''t1'' Update no_data]" 5000 5001
      "answer [verdict_for ''q1'' Error] 1000"]
  by (simp add: getPendingSyncItems_def)

text \<open>
  C8, as the spec states it, fails. A first call at clock 2000 receives a response
  with \<^verbatim>\<open>server_timestamp\<close> 1000 and keeps item \<^verbatim>\<open>q2\<close> queued; the next call, on the
  queue the first one left and at clock 5000, sends \<^verbatim>\<open>client_timestamp\<close> 5000, not
  the 1000 of the previous response.
\<close>

theorem sync_high_water_mark_counterexample:
  "map (\<lambda>request. map_option server_timestamp
          (answer [verdict_for ''q1'' Success, verdict_for ''q2'' Error] 1000 request))
     (posted (sync 2000 2001 (answer [verdict_for ''q1'' Success, verdict_for ''q2'' Error] 1000)
        [queue_item ''q1'' ''t1'' Update no_data, queue_item ''q2'' ''t2'' Update no_data]))
     = [Some (Some 1000)]
   \<and> map client_timestamp
        (posted (sync 5000 5001 (answer [verdict_for ''q2'' Success] 6000)
           (queue_after
              (sync 2000 2001 (answer [verdict_for ''q1'' Success, verdict_for ''q2'' Error] 1000)
                 [queue_item ''q1'' ''t1'' Update no_data, queue_item ''q2'' ''t2'' Update no_data]))))
     = [Some 5000]"
  by (simp add: answer_def verdict_for_def queue_item_def sync_def Let_def getPendingSyncItems_def
      sync_step_def removeSyncQueueItem_def)

section \<open>The table and the loop of the handler\<close>

lemma process_items_split:
  "process_items now (xs @ x # ys) st =
     process_items now ys (handle_item now (process_items now xs st) x)"
  by (simp add: process_items_def)





lemma findById_Some:
  assumes "findById tbl i = Some t"
  shows "id_t t = i" and "\<exists>c. created_at t = Some c" and "\<exists>u. updated_at t = Some u"
    and "last_synced_at t \<noteq> Some None"
proof -
  from assms obtain r where r: "find (\<lambda>r. id_r r = i) tbl = Some r" and t: "t = rowToTask r"
    by (auto simp: findById_def)
  from r have "id_r r = i" by (auto simp: find_Some_iff)
  with t show "id_t t = i" by (simp add: rowToTask_def)
  from t show "\<exists>c. created_at t = Some c" by (simp add: rowToTask_def)
  from t show "\<exists>u. updated_at t = Some u" by (simp add: rowToTask_def)
  from t show "last_synced_at t \<noteq> Some None" by (cases "last_synced_at_r r") (simp_all add: rowToTask_def)
qed


lemma date_lt_not_ge: "date_lt a b \<Longrightarrow> \<not> date_ge a b"
  by (auto simp: date_lt_def date_ge_def split: option.splits)


text \<open>How one item ends, by the branch it takes.\<close>

lemma handle_item_absent_not_create:
  assumes "findById tbl (task_id x) = None" and "operation x \<noteq> Create"
  shows "handle_item now (tbl, acc) x =
           (tbl, acc @ [\<lparr> client_id = task_id x, server_id_v = task_id x,
                           status = Success, resolved_data = None, error = None \<rparr>])"
  using assms by (simp add: handle_item_def try_item_def)

lemma handle_item_conflict:
  assumes "findById tbl (task_id x) = Some serverTask"
    and "date_lt (clientUpdatedDate (data x) serverTask) (updated_at serverTask)"
  shows "handle_item now (tbl, acc) x =
           (tbl, acc @ [\<lparr> client_id = task_id x, server_id_v = id_t serverTask,
                           status = Conflict, resolved_data = Some serverTask, error = None \<rparr>])"
  using assms by (simp add: handle_item_def try_item_def date_lt_not_ge)




lemma handle_item_one_verdict:
  assumes "updated_at_p (data x) \<noteq> Some None"
  shows "\<exists>tbl' v. handle_item now (tbl, acc) x = (tbl', acc @ [v]) \<and> client_id v = task_id x"
proof (cases "findById tbl (task_id x)")
  case None
  then show ?thesis
    by (auto simp: handle_item_def try_item_def split: sum.splits)
next
  case (Some serverTask)
  from findById_Some(3) [OF Some] obtain u where u: "updated_at serverTask = Some u" by blast
  obtain c where c: "clientUpdatedDate (data x) serverTask = Some c"
    using assms u by (cases "updated_at_p (data x)") (auto simp: clientUpdatedDate_def)
  have "date_ge (Some c) (Some u) \<or> date_lt (Some c) (Some u)"
    by (auto simp: date_ge_def date_lt_def)
  with Some u c show ?thesis
    by (auto simp: handle_item_def try_item_def split: sum.splits)
qed

lemma verdicts_follow_items:
  assumes "\<forall>x\<in>set xs. updated_at_p (data x) \<noteq> Some None"
  shows "map client_id (snd (process_items now xs (tbl, acc))) = map client_id acc @ map task_id xs"
  using assms
proof (induction xs arbitrary: tbl acc)
  case Nil
  then show ?case by (simp add: process_items_def)
next
  case (Cons x xs)
  from Cons.prems have "updated_at_p (data x) \<noteq> Some None" by simp
  from handle_item_one_verdict [OF this, of now tbl acc]
  obtain tbl' v where step: "handle_item now (tbl, acc) x = (tbl', acc @ [v])"
    and v: "client_id v = task_id x" by blast
  have "process_items now (x # xs) (tbl, acc) = process_items now xs (tbl', acc @ [v])"
    using step by (simp add: process_items_def)
  with Cons.IH [of tbl' "acc @ [v]"] Cons.prems v show ?case by simp
qed

lemma handle_item_client_ids:
  "client_id ` set (snd (handle_item now st x)) \<subseteq> client_id ` set (snd st) \<union> {task_id x}"
proof (cases st)
  case (Pair tbl acc)
  show ?thesis
    unfolding Pair handle_item_def try_item_def
    by (auto split: sum.splits option.splits if_splits)
qed

lemma process_items_client_ids:
  "client_id ` set (snd (process_items now xs st)) \<subseteq> client_id ` set (snd st) \<union> task_id ` set xs"
proof (induction xs arbitrary: st)
  case Nil
  then show ?case by (simp add: process_items_def)
next
  case (Cons x xs)
  have "process_items now (x # xs) st = process_items now xs (handle_item now st x)"
    by (simp add: process_items_def)
  with Cons.IH [of "handle_item now st x"] handle_item_client_ids [of now st x]
  show ?case by auto
qed

lemma own_server_client_ids:
  assumes "own_server snow tbl request = Some resp"
  shows "client_id ` set (processed_items resp) \<subseteq> task_id ` set (items request)"
proof -
  obtain tbl' vs where run: "process_items snow (items request) (tbl, []) = (tbl', vs)"
    by (cases "process_items snow (items request) (tbl, [])")
  from assms run have "processed_items resp = vs"
    by (auto simp: own_server_def handleBatchSync_def split: sum.splits)
  with process_items_client_ids [of snow "items request" "(tbl, [])"] run
  show ?thesis by simp
qed

text \<open>
  The client against this repository's own handler: the verdicts carry task ids, the
  client deletes by the id of the queue row, so as long as no queue row has the id
  of a queued task, \<^verbatim>\<open>sync\<close> removes nothing, whatever the verdicts are.
\<close>

lemma sync_with_own_server_never_prunes:
  assumes "\<forall>q\<in>set queue. \<forall>q'\<in>set queue. id_q q \<noteq> task_id q'"
  shows "queue_after (sync now now_err (own_server snow tbl) queue) = queue"
proof (cases "queue = []")
  case True
  then show ?thesis by (simp add: sync_def Let_def pending_empty)
next
  case False
  let ?req = "\<lparr> items = getPendingSyncItems queue, client_timestamp = Some now \<rparr>"
  show ?thesis
  proof (cases "own_server snow tbl ?req")
    case None
    with False show ?thesis by (simp add: sync_failed)
  next
    case (Some resp)
    from own_server_client_ids [OF Some]
    have ids: "client_id ` set (processed_items resp) \<subseteq> task_id ` set queue"
      by (simp add: getPendingSyncItems_def)
    have "\<not> (\<exists>v\<in>set (processed_items resp).
                 client_id v = id_q q \<and> (status v = Success \<or> status v = Conflict))"
      if "q \<in> set queue" for q
      using ids assms that by (metis image_eqI subsetD imageE)
    then have "filter (\<lambda>q. \<not> (\<exists>v\<in>set (processed_items resp).
                 client_id v = id_q q \<and> (status v = Success \<or> status v = Conflict))) queue = queue"
      by (simp add: filter_id_conv)
    with sync_removes_by_client_id [where post = "own_server snow tbl" and queue = queue
        and now = now and resp = resp and now_err = now_err] False Some
    show ?thesis by simp
  qed
qed

section \<open>Properties of \<^verbatim>\<open>handleBatchSync\<close>\<close>




text \<open>
  C2. When the loop reaches an item whose task is in the table and whose incoming
  timestamp is strictly before the stored one, the table stays as it is and the
  verdict pushed is \<^verbatim>\<open>conflict\<close>, with the stored task as \<^verbatim>\<open>resolved_data\<close>.
\<close>

theorem lww_server_wins:
  assumes "process_items now xs st = (tbl1, acc)"
    and "findById tbl1 (task_id x) = Some serverTask"
    and "date_lt (clientUpdatedDate (data x) serverTask) (updated_at serverTask)"
  shows "process_items now (xs @ x # ys) st =
           process_items now ys
             (tbl1, acc @ [\<lparr> client_id = task_id x, server_id_v = id_t serverTask,
                              status = Conflict, resolved_data = Some serverTask, error = None \<rparr>])"
  by (simp add: process_items_split assms(1) handle_item_conflict [OF assms(2,3)])

theorem lww_server_wins_witness:
  "handleBatchSync 1000
     \<lparr> items = [queue_item ''q1'' ''t1'' Update
                  (no_data \<lparr> title_p := Some ''Buy oat milk'', updated_at_p := Some (Some 99) \<rparr>)],
       client_timestamp = Some 100 \<rparr>
     [row_t1]
   = ([row_t1],
      Inr \<lparr> processed_items =
              [\<lparr> client_id = ''t1'', server_id_v = ''t1'', status = Conflict,
                 resolved_data = Some (rowToTask row_t1), error = None \<rparr>],
            server_changes = [],
            server_timestamp = Some 1000 \<rparr>)"
  using lww_server_wins [where now = 1000 and xs = "[]" and st = "([row_t1], [])"
      and ?tbl1.0 = "[row_t1]" and acc = "[]"
      and x = "queue_item ''q1'' ''t1'' Update
           (no_data \<lparr> title_p := Some ''Buy oat milk'', updated_at_p := Some (Some 99) \<rparr>)"
      and serverTask = "rowToTask row_t1" and ys = "[]"]
  by (simp add: handleBatchSync_def process_items_def findById_def row_t1_def queue_item_def
      no_data_def rowToTask_def date_lt_def clientUpdatedDate_def findTasksModifiedSince_def
      toISOString_def)

text \<open>
  C9. When the loop reaches an item whose task is not in the table and whose
  operation is \<^verbatim>\<open>update\<close> or \<^verbatim>\<open>delete\<close>, the table stays as it is (no task is created)
  and the verdict pushed is \<^verbatim>\<open>success\<close>.
\<close>

theorem absent_update_or_delete:
  assumes "process_items now xs st = (tbl1, acc)"
    and "findById tbl1 (task_id x) = None"
    and "operation x = Update \<or> operation x = Delete"
  shows "process_items now (xs @ x # ys) st =
           process_items now ys
             (tbl1, acc @ [\<lparr> client_id = task_id x, server_id_v = task_id x,
                              status = Success, resolved_data = None, error = None \<rparr>])"
proof -
  from assms(3) have "operation x \<noteq> Create" by auto
  with assms(2) show ?thesis
    by (simp add: process_items_split assms(1) handle_item_absent_not_create)
qed

theorem absent_update_or_delete_witness:
  "handleBatchSync 1000
     \<lparr> items = [queue_item ''q1'' ''t2'' Delete (no_data \<lparr> is_deleted_p := Some True \<rparr>)],
       client_timestamp = Some 100 \<rparr>
     [row_t1]
   = ([row_t1],
      Inr \<lparr> processed_items =
              [\<lparr> client_id = ''t2'', server_id_v = ''t2'', status = Success,
                 resolved_data = None, error = None \<rparr>],
            server_changes = [],
            server_timestamp = Some 1000 \<rparr>)"
  using absent_update_or_delete [where now = 1000 and xs = "[]" and st = "([row_t1], [])"
      and ?tbl1.0 = "[row_t1]" and acc = "[]"
      and x = "queue_item ''q1'' ''t2'' Delete (no_data \<lparr> is_deleted_p := Some True \<rparr>)"
      and ys = "[]"]
  by (simp add: handleBatchSync_def process_items_def findById_def row_t1_def queue_item_def
      findTasksModifiedSince_def toISOString_def)





text \<open>
  C5, as the code has it. For a request whose \<^verbatim>\<open>client_timestamp\<close> is a valid date and
  none of whose items submits an invalid \<^verbatim>\<open>updated_at\<close>, the handler returns a
  response with one verdict for each item, in the order of the items, and the
  \<^verbatim>\<open>client_id\<close> of each verdict is the \<^verbatim>\<open>task_id\<close> of its item.
\<close>

theorem one_verdict_per_item_by_task_id:
  assumes "client_timestamp request = Some T"
    and "\<forall>x\<in>set (items request). updated_at_p (data x) \<noteq> Some None"
  shows "\<exists>resp.
           snd (handleBatchSync now request tbl) = Inr resp
         \<and> length (processed_items resp) = length (items request)
         \<and> map client_id (processed_items resp) = map task_id (items request)"
proof -
  obtain tbl' vs where run: "process_items now (items request) (tbl, []) = (tbl', vs)"
    by (cases "process_items now (items request) (tbl, [])")
  have ids: "map client_id vs = map task_id (items request)"
    using verdicts_follow_items [OF assms(2), of now tbl "[]"] run by simp
  then have "length vs = length (items request)"
    by (metis length_map)
  with ids assms(1) run show ?thesis
    by (simp add: handleBatchSync_def findTasksModifiedSince_def toISOString_def)
qed

theorem one_verdict_per_item_by_task_id_witness:
  "client_timestamp
     \<lparr> items = [queue_item ''q1'' ''t1'' Update (no_data \<lparr> updated_at_p := Some (Some 99) \<rparr>),
                queue_item ''q2'' ''t2'' Delete no_data],
       client_timestamp = Some 500 \<rparr> = Some 500
   \<and> (\<exists>resp.
        snd (handleBatchSync 1000
               \<lparr> items = [queue_item ''q1'' ''t1'' Update (no_data \<lparr> updated_at_p := Some (Some 99) \<rparr>),
                          queue_item ''q2'' ''t2'' Delete no_data],
                 client_timestamp = Some 500 \<rparr>
               [row_t1]) = Inr resp
      \<and> map client_id (processed_items resp) = [''t1'', ''t2''])"
  (is "client_timestamp ?req = _ \<and> (\<exists>resp. snd ?run = Inr resp \<and> _)")
proof -
  have h: "client_timestamp ?req = Some 500" by simp
  have v: "\<forall>x\<in>set (items ?req). updated_at_p (data x) \<noteq> Some None"
    by (simp add: queue_item_def no_data_def)
  have t: "map task_id (items ?req) = [''t1'', ''t2'']"
    by (simp add: queue_item_def)
  from one_verdict_per_item_by_task_id [OF h v, of 1000 "[row_t1]"]
  obtain resp where "snd ?run = Inr resp"
    and "map client_id (processed_items resp) = map task_id (items ?req)"
    by blast
  then have "snd ?run = Inr resp \<and> map client_id (processed_items resp) = [''t1'', ''t2'']"
    unfolding t by simp
  then have "\<exists>resp. snd ?run = Inr resp \<and> map client_id (processed_items resp) = [''t1'', ''t2'']"
    by (intro exI [where x = resp])
  with h show ?thesis by (intro conjI)
qed

text \<open>
  C5, as the spec states it, fails. The verdict for the queue item with id \<^verbatim>\<open>q1\<close>
  carries \<^verbatim>\<open>t1\<close>, the id of the task, not \<^verbatim>\<open>q1\<close>. And an item that submits an invalid
  \<^verbatim>\<open>updated_at\<close> for a stored task gets no verdict: an invalid date is neither
  \<^verbatim>\<open>>=\<close> nor \<^verbatim>\<open><\<close> the stored one, and the \<^verbatim>\<open>if\<close> has no third branch.
\<close>

theorem verdict_id_and_count_counterexample:
  "id_q (queue_item ''q1'' ''t1'' Update no_data) = ''q1''
   \<and> handleBatchSync 1000
        \<lparr> items = [queue_item ''q1'' ''t1'' Update no_data], client_timestamp = Some 0 \<rparr> []
      = ([],
         Inr \<lparr> processed_items =
                 [\<lparr> client_id = ''t1'', server_id_v = ''t1'', status = Success,
                    resolved_data = None, error = None \<rparr>],
               server_changes = [],
               server_timestamp = Some 1000 \<rparr>)
   \<and> handleBatchSync 1000
        \<lparr> items = [queue_item ''q1'' ''t1'' Update (no_data \<lparr> updated_at_p := Some None \<rparr>)],
          client_timestamp = Some 100 \<rparr>
        [row_t1]
      = ([row_t1],
         Inr \<lparr> processed_items = [], server_changes = [], server_timestamp = Some 1000 \<rparr>)"
  by (simp add: handleBatchSync_def process_items_def handle_item_def try_item_def findById_def
      row_t1_def queue_item_def no_data_def rowToTask_def date_lt_def date_ge_def
      clientUpdatedDate_def findTasksModifiedSince_def toISOString_def)

end
